theory Spec2Isabelle
  imports Main "HOL-Library.Word"
begin

unbundle bit_operations_syntax

section \<open>The C data model of \<open>ctype.c\<close>\<close>

text \<open>
  Every function of \<open>src/lang_c/libc/src/ctype.c\<close> takes one C \<open>int\<close> and returns
  one C \<open>int\<close>. An \<open>int\<close> is a 32-bit two's complement value: a \<open>32 word\<close>, whose
  integer value is \<open>sint c\<close>. The cast \<open>(unsigned)c\<close> keeps the 32 bits and changes
  only how arithmetic and comparison read them; on \<open>32 word\<close> the operators \<open>-\<close> and
  \<open><\<close> are already the unsigned ones (subtraction wraps modulo \<open>2 ^ 32\<close>), and
  equality, \<open>AND\<close>, \<open>OR\<close> and \<open>NOT\<close> do not depend on the signedness.
\<close>

type_synonym cint = "32 word"

text \<open>The cast \<open>(unsigned)c\<close>: the same bits.\<close>

definition to_unsigned :: "cint \<Rightarrow> 32 word" where
  "to_unsigned c = c"

text \<open>A C comparison yields the \<open>int\<close> 1 or 0.\<close>

definition c_bool :: "bool \<Rightarrow> cint" where
  "c_bool b = (if b then 1 else 0)"

text \<open>The logical operators \<open>!\<close>, \<open>||\<close> and \<open>&&\<close> test their operands against zero.
  Their operands here have no effect, so the short circuit is not visible.\<close>

definition c_not :: "cint \<Rightarrow> cint" where
  "c_not x = c_bool (x = 0)"

definition c_or :: "cint \<Rightarrow> cint \<Rightarrow> cint" where
  "c_or x y = c_bool (x \<noteq> 0 \<or> y \<noteq> 0)"

definition c_and :: "cint \<Rightarrow> cint \<Rightarrow> cint" where
  "c_and x y = c_bool (x \<noteq> 0 \<and> y \<noteq> 0)"

section \<open>The functions of \<open>ctype.c\<close>, in the order of the file\<close>

text \<open>\<open>return !(c&~0x7f);\<close>\<close>

definition isascii :: "cint \<Rightarrow> cint" where
  "isascii c = c_not (c AND NOT 0x7f)"

text \<open>\<open>return c == ' ' || c == '\t';\<close>\<close>

definition isblank :: "cint \<Rightarrow> cint" where
  "isblank c = c_or (c_bool (c = 0x20)) (c_bool (c = 0x09))"

text \<open>\<open>return ((unsigned)c|32)-'a' < 26;\<close>\<close>

definition isalpha :: "cint \<Rightarrow> cint" where
  "isalpha c = c_bool ((to_unsigned c OR 32) - 0x61 < 26)"

text \<open>\<open>return (unsigned)c-'0' < 10;\<close>\<close>

definition isdigit :: "cint \<Rightarrow> cint" where
  "isdigit c = c_bool (to_unsigned c - 0x30 < 10)"

text \<open>\<open>return isalpha(c) || isdigit(c);\<close>\<close>

definition isalnum :: "cint \<Rightarrow> cint" where
  "isalnum c = c_or (isalpha c) (isdigit c)"

text \<open>\<open>return c == ' ' || (unsigned)c-'\t' < 5;\<close>\<close>

definition isspace :: "cint \<Rightarrow> cint" where
  "isspace c = c_or (c_bool (c = 0x20)) (c_bool (to_unsigned c - 0x09 < 5))"

text \<open>\<open>return (unsigned)c-'A' < 26;\<close>\<close>

definition isupper :: "cint \<Rightarrow> cint" where
  "isupper c = c_bool (to_unsigned c - 0x41 < 26)"

text \<open>\<open>return (unsigned)c-'a' < 26;\<close>\<close>

definition islower :: "cint \<Rightarrow> cint" where
  "islower c = c_bool (to_unsigned c - 0x61 < 26)"

text \<open>\<open>if (isupper(c)) { return c | 32; } return c;\<close>\<close>

definition tolower :: "cint \<Rightarrow> cint" where
  "tolower c = (if isupper c \<noteq> 0 then c OR 32 else c)"

text \<open>\<open>if (islower(c)) { return c & 0x5f; } return c;\<close>\<close>

definition toupper :: "cint \<Rightarrow> cint" where
  "toupper c = (if islower c \<noteq> 0 then c AND 0x5f else c)"

text \<open>\<open>return c & 0x7f;\<close>\<close>

definition toascii :: "cint \<Rightarrow> cint" where
  "toascii c = c AND 0x7f"

text \<open>\<open>return (unsigned)c-0x20 < 0x5f;\<close>\<close>

definition isprint :: "cint \<Rightarrow> cint" where
  "isprint c = c_bool (to_unsigned c - 0x20 < 0x5f)"

text \<open>\<open>return (unsigned)c-0x21 < 0x5e;\<close>\<close>

definition isgraph :: "cint \<Rightarrow> cint" where
  "isgraph c = c_bool (to_unsigned c - 0x21 < 0x5e)"

text \<open>\<open>return isgraph(c) && !isalnum(c);\<close>\<close>

definition ispunct :: "cint \<Rightarrow> cint" where
  "ispunct c = c_and (isgraph c) (c_not (isalnum c))"

text \<open>\<open>return (unsigned)c < 0x20 || c == 0x7f;\<close>\<close>

definition iscntrl :: "cint \<Rightarrow> cint" where
  "iscntrl c = c_or (c_bool (to_unsigned c < 0x20)) (c_bool (c = 0x7f))"

text \<open>\<open>return isdigit(c) || ((unsigned)c|32)-'a' < 6;\<close>\<close>

definition isxdigit :: "cint \<Rightarrow> cint" where
  "isxdigit c = c_or (isdigit c) (c_bool ((to_unsigned c OR 32) - 0x61 < 6))"

section \<open>The contract table of the specification\<close>

text \<open>The thirteen classification predicates, by name.\<close>

datatype predicate =
    P_isascii | P_isblank | P_isupper | P_islower | P_isalpha | P_isdigit | P_isalnum
  | P_isspace | P_isxdigit | P_isgraph | P_isprint | P_ispunct | P_iscntrl

text \<open>The function of \<open>ctype.c\<close> that each name stands for.\<close>

fun classify :: "predicate \<Rightarrow> cint \<Rightarrow> cint" where
  "classify P_isascii c = isascii c"
| "classify P_isblank c = isblank c"
| "classify P_isupper c = isupper c"
| "classify P_islower c = islower c"
| "classify P_isalpha c = isalpha c"
| "classify P_isdigit c = isdigit c"
| "classify P_isalnum c = isalnum c"
| "classify P_isspace c = isspace c"
| "classify P_isxdigit c = isxdigit c"
| "classify P_isgraph c = isgraph c"
| "classify P_isprint c = isprint c"
| "classify P_ispunct c = ispunct c"
| "classify P_iscntrl c = iscntrl c"

text \<open>
  The specification's side, not the code's: the range that the contract table gives for
  each predicate, written from the table's words over the integer value \<open>i\<close> of the
  argument. The characters are their ASCII codes: tab 9, space 32, \<open>'0'\<close> 48,
  \<open>'A'\<close> 65, \<open>'a'\<close> 97. The table's row for \<open>iscntrl\<close> reads
  "nonzero iff \<open>c < 0x20\<close> or \<open>c == 0x7f\<close> (...so negative inputs are classified as
  control)": every integer below \<open>0x20\<close>, the negative ones included.
\<close>

definition table_isupper :: "int \<Rightarrow> bool" where
  "table_isupper i = (65 \<le> i \<and> i \<le> 90)"

definition table_islower :: "int \<Rightarrow> bool" where
  "table_islower i = (97 \<le> i \<and> i \<le> 122)"

definition table_isalpha :: "int \<Rightarrow> bool" where
  "table_isalpha i = (table_isupper i \<or> table_islower i)"

definition table_isdigit :: "int \<Rightarrow> bool" where
  "table_isdigit i = (48 \<le> i \<and> i \<le> 57)"

definition table_isalnum :: "int \<Rightarrow> bool" where
  "table_isalnum i = (table_isalpha i \<or> table_isdigit i)"

definition table_isgraph :: "int \<Rightarrow> bool" where
  "table_isgraph i = (0x21 \<le> i \<and> i \<le> 0x7e)"

fun table_range :: "predicate \<Rightarrow> int \<Rightarrow> bool" where
  "table_range P_isascii i = (0 \<le> i \<and> i \<le> 127)"
| "table_range P_isblank i = (i = 32 \<or> i = 9)"
| "table_range P_isupper i = table_isupper i"
| "table_range P_islower i = table_islower i"
| "table_range P_isalpha i = table_isalpha i"
| "table_range P_isdigit i = table_isdigit i"
| "table_range P_isalnum i = table_isalnum i"
| "table_range P_isspace i = (i = 32 \<or> 9 \<le> i \<and> i \<le> 13)"
| "table_range P_isxdigit i =
     (table_isdigit i \<or> 97 \<le> i \<and> i \<le> 102 \<or> 65 \<le> i \<and> i \<le> 70)"
| "table_range P_isgraph i = table_isgraph i"
| "table_range P_isprint i = (0x20 \<le> i \<and> i \<le> 0x7e)"
| "table_range P_ispunct i = (table_isgraph i \<and> \<not> table_isalnum i)"
| "table_range P_iscntrl i = (i < 0x20 \<or> i = 0x7f)"

text \<open>
  The table with the row of \<open>iscntrl\<close> bounded below: \<open>0 \<le> c < 0x20\<close> or
  \<open>c == 0x7f\<close>. Every other row is the table's.
\<close>

fun bounded_range :: "predicate \<Rightarrow> int \<Rightarrow> bool" where
  "bounded_range P_iscntrl i = (0 \<le> i \<and> i < 0x20 \<or> i = 0x7f)"
| "bounded_range p i = table_range p i"

section \<open>How the C operators read\<close>

lemma c_bool_nonzero [simp]: "(c_bool b \<noteq> 0) = b" "(c_bool b = 0) = (\<not> b)"
  by (simp_all add: c_bool_def)

lemma c_not_nonzero [simp]: "(c_not x \<noteq> 0) = (x = 0)" "(c_not x = 0) = (x \<noteq> 0)"
  by (simp_all add: c_not_def)

lemma c_or_nonzero [simp]:
  "(c_or x y \<noteq> 0) = (x \<noteq> 0 \<or> y \<noteq> 0)" "(c_or x y = 0) = (x = 0 \<and> y = 0)"
  by (simp_all add: c_or_def)

lemma c_and_nonzero [simp]:
  "(c_and x y \<noteq> 0) = (x \<noteq> 0 \<and> y \<noteq> 0)" "(c_and x y = 0) = (x = 0 \<or> y = 0)"
  by (simp_all add: c_and_def)

section \<open>Unsigned and signed readings of a 32-bit value\<close>

lemma bit31_int:
  fixes k :: int
  assumes "0 \<le> k" and "k < 2 ^ 32"
  shows "bit k 31 = (2 ^ 31 \<le> k)"
proof -
  from assms have "k div 2 ^ 31 = 0 \<or> k div 2 ^ 31 = 1" by auto
  with assms show ?thesis by (auto simp add: bit_iff_odd)
qed

lemma sint_by_uint:
  fixes c :: cint
  shows "sint c = (if uint c < 2 ^ 31 then uint c else uint c - 2 ^ 32)"
proof -
  have top: "bit (uint c) 31 = (2 ^ 31 \<le> uint c)"
    using uint_lt2p [of c] by (intro bit31_int) auto
  have low: "take_bit 32 (uint c) = uint c"
    using uint_lt2p [of c] by (simp add: take_bit_int_eq_self)
  show ?thesis
    by (simp add: sint_uint signed_take_bit_eq_take_bit_minus top low)
qed

lemma uint_range_sint:
  fixes c :: cint
  assumes "0 \<le> lo" and "hi < 2 ^ 31"
  shows "(lo \<le> uint c \<and> uint c \<le> hi) = (lo \<le> sint c \<and> sint c \<le> hi)"
proof (cases "uint c < 2 ^ 31")
  case True
  then show ?thesis by (simp add: sint_by_uint)
next
  case False
  have "uint c < 2 ^ 32" using uint_lt2p [of c] by simp
  with False assms show ?thesis by (simp add: sint_by_uint)
qed

lemma uint_eq_sint:
  fixes c :: cint
  assumes "0 \<le> v" and "v < 2 ^ 31"
  shows "(uint c = v) = (sint c = v)"
  using uint_range_sint [of v v c] assms by auto

lemma word_eq_uint: "((c::cint) = d) = (uint c = uint d)"
  by (simp add: word_uint_eq_iff)

text \<open>The range check by unsigned subtraction: \<open>(unsigned)c - lo < w\<close>.\<close>

lemma range_check:
  fixes c :: "32 word"
  assumes "uint lo + uint w \<le> 2 ^ 32"
  shows "(c - lo < w) = (uint lo \<le> uint c \<and> uint c \<le> uint lo + uint w - 1)"
proof (cases "uint lo \<le> uint c")
  case True
  then show ?thesis by (auto simp add: word_less_def uint_sub_if')
next
  case False
  have "0 \<le> uint c" by simp
  with assms have "\<not> uint c - uint lo + 2 ^ 32 < uint w" by linarith
  with False show ?thesis by (simp add: word_less_def uint_sub_if')
qed

section \<open>The bit operations on the unsigned value\<close>

lemma or32_int: "(k::int) OR 32 = k + (if odd (k div 32) then 0 else 32)"
proof -
  have "k OR 32 = set_bit 5 k" by (simp add: set_bit_def)
  then show ?thesis by (simp add: set_bit_eq bit_iff_odd)
qed

lemma uint_or32:
  "uint ((c::cint) OR 32) = uint c + (if odd (uint c div 32) then 0 else 32)"
  using or32_int [of "uint c"] by (simp add: uint_or)

lemma and5f_int:
  "(k::int) AND 0x5f = k mod 128 - (if odd (k mod 128 div 32) then 32 else 0)"
proof -
  have "(0x5f::int) = 0x7f AND NOT 0x20" by simp
  then have "k AND 0x5f = unset_bit 5 (take_bit 7 k)"
    by (simp add: unset_bit_eq_and_not take_bit_eq_mask mask_eq_exp_minus_1 and.assoc)
  then show ?thesis by (simp add: unset_bit_eq bit_iff_odd take_bit_eq_mod)
qed

lemma uint_and5f:
  "uint ((c::cint) AND 0x5f) = uint c mod 128 - (if odd (uint c mod 128 div 32) then 32 else 0)"
  using and5f_int [of "uint c"] by (simp add: uint_and)

lemma and7f_int: "(k::int) AND 0x7f = k mod 128"
  using take_bit_eq_mask [of 7 k] by (simp add: take_bit_eq_mod mask_eq_exp_minus_1)

lemma uint_and7f: "uint ((c::cint) AND 0x7f) = uint c mod 128"
  using and7f_int [of "uint c"] by (simp add: uint_and)

lemma and_not_zero_iff: "((c::cint) AND NOT m = 0) = (c AND m = c)"
  by (auto simp add: bit_eq_iff bit_simps)

section \<open>Each function on the unsigned value\<close>

lemma isupper_uint: "(isupper c \<noteq> 0) = (65 \<le> uint c \<and> uint c \<le> 90)"
  by (simp add: isupper_def to_unsigned_def range_check)

lemma islower_uint: "(islower c \<noteq> 0) = (97 \<le> uint c \<and> uint c \<le> 122)"
  by (simp add: islower_def to_unsigned_def range_check)

lemma isdigit_uint: "(isdigit c \<noteq> 0) = (48 \<le> uint c \<and> uint c \<le> 57)"
  by (simp add: isdigit_def to_unsigned_def range_check)

lemma isprint_uint: "(isprint c \<noteq> 0) = (32 \<le> uint c \<and> uint c \<le> 126)"
  by (simp add: isprint_def to_unsigned_def range_check)

lemma isgraph_uint: "(isgraph c \<noteq> 0) = (33 \<le> uint c \<and> uint c \<le> 126)"
  by (simp add: isgraph_def to_unsigned_def range_check)

lemma isalpha_uint:
  "(isalpha c \<noteq> 0) = (65 \<le> uint c \<and> uint c \<le> 90 \<or> 97 \<le> uint c \<and> uint c \<le> 122)"
proof -
  have "(isalpha c \<noteq> 0) = (97 \<le> uint (c OR 32) \<and> uint (c OR 32) \<le> 122)"
    by (simp add: isalpha_def to_unsigned_def range_check)
  also have "\<dots> = (65 \<le> uint c \<and> uint c \<le> 90 \<or> 97 \<le> uint c \<and> uint c \<le> 122)"
    unfolding uint_or32 by presburger
  finally show ?thesis .
qed

lemma isxdigit_uint:
  "(isxdigit c \<noteq> 0) =
     (48 \<le> uint c \<and> uint c \<le> 57 \<or> 65 \<le> uint c \<and> uint c \<le> 70 \<or> 97 \<le> uint c \<and> uint c \<le> 102)"
proof -
  have "((c OR 32) - 0x61 < 6) = (97 \<le> uint (c OR 32) \<and> uint (c OR 32) \<le> 102)"
    by (simp add: range_check)
  also have "\<dots> = (65 \<le> uint c \<and> uint c \<le> 70 \<or> 97 \<le> uint c \<and> uint c \<le> 102)"
    unfolding uint_or32 by presburger
  finally show ?thesis
    by (simp add: isxdigit_def to_unsigned_def isdigit_uint)
qed

lemma isalnum_uint:
  "(isalnum c \<noteq> 0) =
     (65 \<le> uint c \<and> uint c \<le> 90 \<or> 97 \<le> uint c \<and> uint c \<le> 122 \<or> 48 \<le> uint c \<and> uint c \<le> 57)"
  by (simp add: isalnum_def isalpha_uint isdigit_uint)

lemma isblank_uint: "(isblank c \<noteq> 0) = (uint c = 32 \<or> uint c = 9)"
  by (simp add: isblank_def) (simp add: word_eq_uint)

lemma isspace_uint: "(isspace c \<noteq> 0) = (uint c = 32 \<or> 9 \<le> uint c \<and> uint c \<le> 13)"
  by (simp add: isspace_def to_unsigned_def range_check) (simp add: word_eq_uint)

lemma iscntrl_uint: "(iscntrl c \<noteq> 0) = (uint c < 32 \<or> uint c = 127)"
  by (simp add: iscntrl_def to_unsigned_def word_less_def) (simp add: word_eq_uint)

lemma isascii_uint: "(isascii c \<noteq> 0) = (uint c \<le> 127)"
proof -
  have "(isascii c \<noteq> 0) = (c AND 0x7f = c)"
    by (simp only: isascii_def c_not_nonzero and_not_zero_iff not_not)
  also have "\<dots> = (uint c mod 128 = uint c)"
    by (simp add: word_eq_uint uint_and7f)
  also have "\<dots> = (uint c \<le> 127)"
    using uint_ge_0 [of c] by presburger
  finally show ?thesis .
qed

lemma ispunct_uint:
  "(ispunct c \<noteq> 0) =
     (33 \<le> uint c \<and> uint c \<le> 126 \<and>
      \<not> (65 \<le> uint c \<and> uint c \<le> 90 \<or> 97 \<le> uint c \<and> uint c \<le> 122 \<or> 48 \<le> uint c \<and> uint c \<le> 57))"
proof -
  have "(ispunct c \<noteq> 0) = (isgraph c \<noteq> 0 \<and> \<not> isalnum c \<noteq> 0)"
    by (simp add: ispunct_def)
  then show ?thesis
    by (simp only: isgraph_uint isalnum_uint conj_assoc)
qed

lemma tolower_uint:
  "uint (tolower c) = (if 65 \<le> uint c \<and> uint c \<le> 90 then uint c + 32 else uint c)"
proof (cases "65 \<le> uint c \<and> uint c \<le> 90")
  case True
  then have "even (uint c div 32)" by presburger
  with True show ?thesis by (simp add: tolower_def isupper_uint uint_or32)
next
  case False
  then show ?thesis by (auto simp add: tolower_def isupper_uint)
qed

lemma toupper_uint:
  "uint (toupper c) = (if 97 \<le> uint c \<and> uint c \<le> 122 then uint c - 32 else uint c)"
proof (cases "97 \<le> uint c \<and> uint c \<le> 122")
  case True
  then have "uint c mod 128 = uint c" "odd (uint c div 32)" by presburger+
  with True show ?thesis by (simp add: toupper_def islower_uint uint_and5f)
next
  case False
  then show ?thesis by (auto simp add: toupper_def islower_uint)
qed

section \<open>Each predicate on the integer value\<close>

lemma isupper_sint: "(isupper c \<noteq> 0) = (65 \<le> sint c \<and> sint c \<le> 90)"
  by (simp add: isupper_uint uint_range_sint)

lemma islower_sint: "(islower c \<noteq> 0) = (97 \<le> sint c \<and> sint c \<le> 122)"
  by (simp add: islower_uint uint_range_sint)

lemma isdigit_sint: "(isdigit c \<noteq> 0) = (48 \<le> sint c \<and> sint c \<le> 57)"
  by (simp add: isdigit_uint uint_range_sint)

lemma isprint_sint: "(isprint c \<noteq> 0) = (32 \<le> sint c \<and> sint c \<le> 126)"
  by (simp add: isprint_uint uint_range_sint)

lemma isgraph_sint: "(isgraph c \<noteq> 0) = (33 \<le> sint c \<and> sint c \<le> 126)"
  by (simp add: isgraph_uint uint_range_sint)

lemma isalpha_sint:
  "(isalpha c \<noteq> 0) = (65 \<le> sint c \<and> sint c \<le> 90 \<or> 97 \<le> sint c \<and> sint c \<le> 122)"
  by (simp add: isalpha_uint uint_range_sint)

lemma isxdigit_sint:
  "(isxdigit c \<noteq> 0) =
     (48 \<le> sint c \<and> sint c \<le> 57 \<or> 65 \<le> sint c \<and> sint c \<le> 70 \<or> 97 \<le> sint c \<and> sint c \<le> 102)"
  by (simp add: isxdigit_uint uint_range_sint)

lemma isalnum_sint:
  "(isalnum c \<noteq> 0) =
     (65 \<le> sint c \<and> sint c \<le> 90 \<or> 97 \<le> sint c \<and> sint c \<le> 122 \<or> 48 \<le> sint c \<and> sint c \<le> 57)"
  by (simp add: isalnum_uint uint_range_sint)

lemma isblank_sint: "(isblank c \<noteq> 0) = (sint c = 32 \<or> sint c = 9)"
  by (simp add: isblank_uint uint_eq_sint)

lemma isspace_sint: "(isspace c \<noteq> 0) = (sint c = 32 \<or> 9 \<le> sint c \<and> sint c \<le> 13)"
  by (simp add: isspace_uint uint_eq_sint uint_range_sint)

lemma iscntrl_sint: "(iscntrl c \<noteq> 0) = (0 \<le> sint c \<and> sint c < 32 \<or> sint c = 127)"
proof -
  have "(uint c < 32) = (0 \<le> uint c \<and> uint c \<le> 31)" by auto
  also have "\<dots> = (0 \<le> sint c \<and> sint c \<le> 31)" by (rule uint_range_sint) simp_all
  finally show ?thesis by (auto simp add: iscntrl_uint uint_eq_sint)
qed

lemma isascii_sint: "(isascii c \<noteq> 0) = (0 \<le> sint c \<and> sint c \<le> 127)"
proof -
  have "(uint c \<le> 127) = (0 \<le> uint c \<and> uint c \<le> 127)" by simp
  also have "\<dots> = (0 \<le> sint c \<and> sint c \<le> 127)" by (rule uint_range_sint) simp_all
  finally show ?thesis by (simp add: isascii_uint)
qed

lemma ispunct_sint:
  "(ispunct c \<noteq> 0) =
     (33 \<le> sint c \<and> sint c \<le> 126 \<and>
      \<not> (65 \<le> sint c \<and> sint c \<le> 90 \<or> 97 \<le> sint c \<and> sint c \<le> 122 \<or> 48 \<le> sint c \<and> sint c \<le> 57))"
proof -
  have "(ispunct c \<noteq> 0) = (isgraph c \<noteq> 0 \<and> \<not> isalnum c \<noteq> 0)"
    by (simp add: ispunct_def)
  then show ?thesis
    by (simp only: isgraph_sint isalnum_sint conj_assoc)
qed

lemmas table_rows =
  table_isupper_def table_islower_def table_isalpha_def table_isdigit_def
  table_isalnum_def table_isgraph_def

section \<open>The claims\<close>

text \<open>
  C1, as the specification states it: for every \<open>c\<close> in \<open>-1..255\<close> each predicate is
  nonzero exactly on the range of the contract table. It fails at \<open>c = -1\<close> for
  \<open>iscntrl\<close>: \<open>-1\<close> is in the domain, the table's row (every integer below \<open>0x20\<close>,
  "negative inputs are classified as control") holds of it, and \<open>iscntrl(-1)\<close> is 0,
  because \<open>(unsigned)(-1)\<close> is \<open>0xffffffff\<close>, which is not below \<open>0x20\<close>.
\<close>

theorem table_fails_at_minus_one:
  "- 1 \<le> sint (- 1 :: cint) \<and> sint (- 1 :: cint) \<le> 255 \<and>
   table_range P_iscntrl (sint (- 1 :: cint)) \<and> classify P_iscntrl (- 1) = 0"
  by (simp add: iscntrl_def to_unsigned_def c_or_def c_bool_def)

text \<open>
  C1, amended: for every \<open>c\<close> in \<open>-1..255\<close> each of the thirteen predicates is nonzero
  exactly when \<open>c\<close> lies in the range of the contract table, where the range of
  \<open>iscntrl\<close> is \<open>0 \<le> c < 0x20\<close> or \<open>c == 0x7f\<close>; so \<open>iscntrl(-1)\<close> is zero.
\<close>

theorem classify_matches_bounded_table:
  assumes "- 1 \<le> sint c" and "sint c \<le> 255"
  shows "(classify p c \<noteq> 0) = bounded_range p (sint c)"
proof (cases p)
  case P_isascii
  then show ?thesis by (simp add: isascii_sint table_rows)
next
  case P_isblank
  then show ?thesis by (simp add: isblank_sint table_rows)
next
  case P_isupper
  then show ?thesis by (simp add: isupper_sint table_rows)
next
  case P_islower
  then show ?thesis by (simp add: islower_sint table_rows)
next
  case P_isalpha
  then show ?thesis by (simp add: isalpha_sint table_rows)
next
  case P_isdigit
  then show ?thesis by (simp add: isdigit_sint table_rows)
next
  case P_isalnum
  then show ?thesis by (simp add: isalnum_sint table_rows)
next
  case P_isspace
  then show ?thesis by (simp add: isspace_sint table_rows)
next
  case P_isxdigit
  then show ?thesis by (simp add: isxdigit_sint table_rows disj_ac)
next
  case P_isgraph
  then show ?thesis by (simp add: isgraph_sint table_rows)
next
  case P_isprint
  then show ?thesis by (simp add: isprint_sint table_rows)
next
  case P_ispunct
  then show ?thesis by (simp add: ispunct_sint table_rows)
next
  case P_iscntrl
  then show ?thesis by (simp add: iscntrl_sint table_rows)
qed

theorem classify_matches_bounded_table_witness:
  "(- 1 \<le> sint (- 1 :: cint) \<and> sint (- 1 :: cint) \<le> 255) \<and>
   (classify P_iscntrl (- 1) \<noteq> 0) = bounded_range P_iscntrl (sint (- 1 :: cint)) \<and>
   classify P_iscntrl (- 1) = 0"
  using classify_matches_bounded_table [of "- 1" P_iscntrl] by simp

text \<open>
  C2, as the specification states it: every negative \<open>c\<close> is classified as a control
  character. It fails at \<open>c = -1\<close>, which is negative and for which \<open>iscntrl\<close> returns 0.
\<close>

theorem iscntrl_negative_counterexample:
  "sint (- 1 :: cint) < 0 \<and> iscntrl (- 1) = 0"
  by (simp add: iscntrl_def to_unsigned_def c_or_def c_bool_def)

text \<open>
  C2, amended: for every integer \<open>c\<close>, \<open>iscntrl(c)\<close> is nonzero if and only if
  \<open>0 \<le> c < 0x20\<close> or \<open>c == 0x7f\<close>; the lower-bound comparison reads \<open>c\<close> as unsigned,
  so every negative \<open>c\<close> is classified as not a control character.
\<close>

theorem iscntrl_range:
  "(iscntrl c \<noteq> 0) = (0 \<le> sint c \<and> sint c < 0x20 \<or> sint c = 0x7f) \<and>
   (sint c < 0 \<longrightarrow> iscntrl c = 0)"
  using iscntrl_sint [of c] by auto

theorem iscntrl_range_witness:
  "sint (- 128 :: cint) < 0 \<and> iscntrl (- 128) = 0"
  using iscntrl_range [of "- 128"] by simp

text \<open>
  C4: for every integer \<open>c\<close>, \<open>isalpha(c)\<close> is nonzero if and only if \<open>c\<close> is in
  \<open>0x41..0x5a\<close> or in \<open>0x61..0x7a\<close>: folding with \<open>|32\<close> and one unsigned range check of
  width 26 from \<open>'a'\<close> accepts those two ranges and nothing else.
\<close>

theorem isalpha_range:
  "(isalpha c \<noteq> 0) = (0x41 \<le> sint c \<and> sint c \<le> 0x5a \<or> 0x61 \<le> sint c \<and> sint c \<le> 0x7a)"
  by (simp add: isalpha_sint)

text \<open>
  C5: for every ASCII letter \<open>c\<close> (in \<open>'A'..'Z'\<close> or \<open>'a'..'z'\<close>),
  \<open>tolower(toupper(c)) == tolower(c)\<close> and \<open>toupper(tolower(c)) == toupper(c)\<close>.
\<close>

theorem case_round_trip:
  assumes "0x41 \<le> sint c \<and> sint c \<le> 0x5a \<or> 0x61 \<le> sint c \<and> sint c \<le> 0x7a"
  shows "tolower (toupper c) = tolower c \<and> toupper (tolower c) = toupper c"
  by (simp add: word_eq_uint tolower_uint toupper_uint)

theorem case_round_trip_witness:
  "(0x41 \<le> sint (0x47 :: cint) \<and> sint (0x47 :: cint) \<le> 0x5a \<or>
    0x61 \<le> sint (0x47 :: cint) \<and> sint (0x47 :: cint) \<le> 0x7a) \<and>
   tolower (toupper 0x47) = tolower 0x47 \<and> toupper (tolower 0x47) = toupper 0x47 \<and>
   tolower 0x47 = 0x67 \<and> toupper 0x47 = 0x47"
  using case_round_trip [of "0x47"]
  by (simp add: tolower_def toupper_def isupper_def islower_def to_unsigned_def c_bool_def)

text \<open>
  C6: for every integer \<open>c\<close> with \<open>isupper(c)\<close> zero, \<open>tolower(c) == c\<close>; and for every
  integer \<open>c\<close> with \<open>islower(c)\<close> zero, \<open>toupper(c) == c\<close>.
\<close>

theorem case_identity_off_source_case:
  "(isupper c = 0 \<longrightarrow> tolower c = c) \<and> (islower c = 0 \<longrightarrow> toupper c = c)"
  by (simp add: tolower_def toupper_def)

theorem case_identity_off_source_case_witness:
  "isupper 0x35 = 0 \<and> tolower 0x35 = 0x35 \<and> islower 0x35 = 0 \<and> toupper 0x35 = 0x35"
proof -
  have "isupper 0x35 = 0" and "islower 0x35 = 0"
    by (simp_all add: isupper_def islower_def to_unsigned_def c_bool_def)
  with case_identity_off_source_case [of "0x35"] show ?thesis by simp
qed

text \<open>
  C7: for every integer \<open>c\<close> in \<open>0..255\<close>, \<open>isascii(c)\<close> is nonzero if and only if
  \<open>toascii(c) == c\<close>: masking to the low 7 bits changes nothing exactly when \<open>c\<close> is
  already in \<open>0..127\<close>.
\<close>

theorem isascii_iff_toascii_fixes:
  assumes "0 \<le> sint c" and "sint c \<le> 255"
  shows "(isascii c \<noteq> 0) = (toascii c = c) \<and>
         (toascii c = c) = (0 \<le> sint c \<and> sint c \<le> 127)"
proof -
  have "(isascii c \<noteq> 0) = (toascii c = c)"
    by (simp only: isascii_def toascii_def c_not_nonzero and_not_zero_iff not_not)
  then show ?thesis by (simp add: isascii_sint)
qed

theorem isascii_iff_toascii_fixes_witness:
  "(0 \<le> sint (200 :: cint) \<and> sint (200 :: cint) \<le> 255) \<and>
   (isascii 200 \<noteq> 0) = (toascii 200 = 200) \<and> toascii 200 = 72 \<and> isascii 200 = 0"
  using isascii_iff_toascii_fixes [of 200] by (simp add: toascii_def)

text \<open>
  C8: for every integer \<open>c\<close>, \<open>isupper(tolower(c)) == 0\<close> and
  \<open>islower(toupper(c)) == 0\<close>.
\<close>

theorem case_output_not_source_case:
  "isupper (tolower c) = 0 \<and> islower (toupper c) = 0"
proof
  have "\<not> isupper (tolower c) \<noteq> 0"
    unfolding isupper_uint tolower_uint by simp
  then show "isupper (tolower c) = 0" by simp
  have "\<not> islower (toupper c) \<noteq> 0"
    unfolding islower_uint toupper_uint by simp
  then show "islower (toupper c) = 0" by simp
qed

text \<open>
  C9: for every integer \<open>c\<close>, if \<open>isblank(c)\<close> is nonzero then \<open>isspace(c)\<close> is nonzero.
\<close>

theorem isblank_imp_isspace:
  assumes "isblank c \<noteq> 0"
  shows "isspace c \<noteq> 0"
  using assms unfolding isblank_uint isspace_uint by auto

theorem isblank_imp_isspace_witness:
  "isblank 0x09 \<noteq> 0 \<and> isspace 0x09 \<noteq> 0"
proof -
  have blank: "isblank 0x09 \<noteq> 0"
    by (simp add: isblank_def c_or_def c_bool_def)
  from blank isblank_imp_isspace [OF blank] show ?thesis by simp
qed

text \<open>
  C10: for every integer \<open>c\<close>, \<open>tolower(tolower(c)) == tolower(c)\<close> and
  \<open>toupper(toupper(c)) == toupper(c)\<close>.
\<close>

theorem case_idempotent:
  "tolower (tolower c) = tolower c \<and> toupper (toupper c) = toupper c"
  by (simp add: word_eq_uint tolower_uint toupper_uint)


end
